theory Spec2Isabelle
  imports Main "HOL-Library.Word"
begin

unbundle bit_operations_syntax

section \<open>Machine integers of the driver\<close>

type_synonym u8 = "8 word"
type_synonym u16 = "16 word"
type_synonym u32 = "32 word"
type_synonym u64 = "64 word"

section \<open>Command descriptors: \<open>cSGPC3_cmds\<close>\<close>

text \<open>
  \<open>enum class Command_t : std::uint32_t\<close>: a command is the 32-bit constant that
  \<open>CommandInit\<close> packs. The masks are \<open>0x3FFF << 0\<close>, \<open>0x1 << 16\<close>, \<open>0x7 << 17\<close>,
  \<open>0xF << 20\<close> and \<open>0xFF << 24\<close>.
\<close>

type_synonym Command_t = u32

definition kCommandMask :: u32 where
  "kCommandMask = push_bit 0 0x3FFF"

definition kParamLenMask :: u32 where
  "kParamLenMask = push_bit 16 0x1"

definition kResponseLenMask :: u32 where
  "kResponseLenMask = push_bit 17 0x7"

definition kFeatureMask :: u32 where
  "kFeatureMask = push_bit 20 0xF"

definition kDelayMask :: u32 where
  "kDelayMask = push_bit 24 0xFF"

text \<open>
  \<open>CommandInit(code, paramLen, responseLen, delayMs, featureSet = 0)\<close>. The two
  lengths are numbers of bytes, CRC included; the constructor stores them divided by
  three. \<open>paramLen / 3\<close> is a division of non-negative values, the same on the promoted
  \<open>int\<close> as on the unsigned byte.
\<close>

definition CommandInit :: "u16 \<Rightarrow> u8 \<Rightarrow> u8 \<Rightarrow> u8 \<Rightarrow> u8 \<Rightarrow> Command_t" where
  "CommandInit code paramLen responseLen delayMs featureSet =
     (ucast code AND kCommandMask) OR
     (push_bit 16 (ucast (paramLen div 3)) AND kParamLenMask) OR
     (push_bit 17 (ucast (responseLen div 3)) AND kResponseLenMask) OR
     (push_bit 20 (ucast featureSet) AND kFeatureMask) OR
     (push_bit 24 (ucast delayMs) AND kDelayMask)"

text \<open>
  The accessors. \<open>getCommand\<close> narrows the constant to 16 bits before masking; the
  others mask, shift right and narrow to the return type.
\<close>

definition getCommand :: "Command_t \<Rightarrow> u16" where
  "getCommand c = ucast ((ucast (ucast c :: u16) :: u32) AND kCommandMask)"

definition getParameterLength :: "Command_t \<Rightarrow> u8" where
  "getParameterLength c = ucast (drop_bit 16 (c AND kParamLenMask))"

definition getResponseLength :: "Command_t \<Rightarrow> u8" where
  "getResponseLength c = ucast (drop_bit 17 (c AND kResponseLenMask))"

definition getFeatureSet :: "Command_t \<Rightarrow> u8" where
  "getFeatureSet c = ucast (drop_bit 20 (c AND kFeatureMask))"

definition getDelayMs :: "Command_t \<Rightarrow> u32" where
  "getDelayMs c = drop_bit 24 (c AND kDelayMask)"

text \<open>The enumerators of \<open>Command_t\<close>, in the order of the header.\<close>

definition Command_t_measure_tvoc :: Command_t where
  "Command_t_measure_tvoc = CommandInit 0x2008 0 3 50 0"

definition Command_t_get_tvoc_baseline :: Command_t where
  "Command_t_get_tvoc_baseline = CommandInit 0x2015 0 3 10 0"

definition Command_t_set_tvoc_baseline :: Command_t where
  "Command_t_set_tvoc_baseline = CommandInit 0x201e 3 0 10 0"

definition Command_t_get_feature_set_version :: Command_t where
  "Command_t_get_feature_set_version = CommandInit 0x202f 0 3 10 0"

definition Command_t_measure_test :: Command_t where
  "Command_t_measure_test = CommandInit 0x2032 0 3 220 0"

definition Command_t_measure_tvoc_and_raw :: Command_t where
  "Command_t_measure_tvoc_and_raw = CommandInit 0x2046 0 6 50 0"

definition Command_t_measure_raw :: Command_t where
  "Command_t_measure_raw = CommandInit 0x204d 0 3 50 0"

definition Command_t_set_absolute_humidity :: Command_t where
  "Command_t_set_absolute_humidity = CommandInit 0x2061 3 0 10 6"

definition Command_t_set_power_mode :: Command_t where
  "Command_t_set_power_mode = CommandInit 0x209f 3 0 10 6"

definition Command_t_tvoc_init_continuous :: Command_t where
  "Command_t_tvoc_init_continuous = CommandInit 0x20ae 0 0 10 0"

definition Command_t_get_tvoc_inceptive_baseline :: Command_t where
  "Command_t_get_tvoc_inceptive_baseline = CommandInit 0x20b3 0 3 10 5"

definition Command_t_get_serial_id :: Command_t where
  "Command_t_get_serial_id = CommandInit 0x3682 0 9 1 0"

section \<open>The checksum: \<open>cSGPC3::crc\<close>\<close>

text \<open>
  The static table of \<open>cSGPC3::crc\<close>, sixteen entries, one for each value of a nibble.
\<close>

definition crcTable :: "u8 list" where
  "crcTable =
     [0x00, 0x31, 0x62, 0x53, 0xc4, 0xf5, 0xa6, 0x97,
      0xb9, 0x88, 0xdb, 0xea, 0x7d, 0x4c, 0x1f, 0x2e]"

text \<open>
  One pass of the body of the \<open>for\<close> loop, for the byte \<open>b\<close> and the running value
  \<open>crc8\<close>. The operands are \<open>uint8_t\<close>; C++ computes \<open>crc8 << 4\<close> on the promoted
  \<open>int\<close> and the assignment to the \<open>uint8_t\<close> variable keeps the low eight bits, which
  is what \<open>push_bit 4\<close> on an 8-bit word gives. The index \<open>p\<close> is below 16 in both
  lookups (a right shift by four, and a mask with \<open>0xF\<close>), so the table is never read
  out of range.
\<close>

definition crc_byte :: "u8 \<Rightarrow> u8 \<Rightarrow> u8" where
  "crc_byte crc8 b =
     (let p = drop_bit 4 (b XOR crc8);
          crc8 = push_bit 4 crc8 XOR crcTable ! unat p;
          p = (drop_bit 4 crc8 XOR b) AND 0xF;
          crc8 = push_bit 4 crc8 XOR crcTable ! unat p
      in crc8)"

text \<open>
  The loop \<open>for (i = nBuf; i > 0; --i, ++buf)\<close> visits the \<open>nBuf\<close> bytes of the buffer
  in order; the buffer with its length is the list \<open>buf\<close>. The third argument is the
  initial value \<open>crc8\<close>.
\<close>

fun crc :: "u8 list \<Rightarrow> u8 \<Rightarrow> u8" where
  "crc [] crc8 = crc8"
| "crc (b # buf) crc8 = crc buf (crc_byte crc8 b)"

subsection \<open>The reference the table is compared with\<close>

text \<open>
  The bitwise CRC-8 of polynomial \<open>x^8 + x^5 + x^4 + 1\<close> (\<open>0x31\<close>), most significant
  bit first: a step shifts the accumulator left by one and XORs the polynomial in when
  the bit shifted out was set. A byte is XORed into the accumulator and eight steps
  follow; nothing is XORed at the end. These three definitions follow that description,
  not the source.
\<close>

definition crc8_bit_step :: "u8 \<Rightarrow> u8" where
  "crc8_bit_step c = (if bit c 7 then push_bit 1 c XOR 0x31 else push_bit 1 c)"

definition crc8_bitwise_byte :: "u8 \<Rightarrow> u8 \<Rightarrow> u8" where
  "crc8_bitwise_byte c b = (crc8_bit_step ^^ 8) (c XOR b)"

fun crc8_bitwise :: "u8 list \<Rightarrow> u8 \<Rightarrow> u8" where
  "crc8_bitwise [] c = c"
| "crc8_bitwise (b # bs) c = crc8_bitwise bs (crc8_bitwise_byte c b)"

section \<open>The session and its surroundings\<close>

text \<open>
  \<open>Error_t\<close>. The header at hand lists the first four codes; \<open>MCCI_Catena_SGPC3.cpp\<close>
  returns four more (\<open>WriteError\<close>, \<open>ReadError\<close>, \<open>BadCRC\<close>, \<open>WrongDeviceType\<close>), which
  are added here as further enumerators.
\<close>

datatype Error_t =
    Success
  | Failure
  | InvalidParmameter
  | NotSupported
  | WriteError
  | ReadError
  | BadCRC
  | WrongDeviceType

definition isSuccess :: "Error_t \<Rightarrow> bool" where
  "isSuccess e = (e = Success)"

datatype PowerMode_t = UltraLow | Low

text \<open>\<open>std::uint16_t(mode)\<close>: \<open>UltraLow = 0\<close>, \<open>Low = 1\<close>.\<close>

fun PowerMode_t_value :: "PowerMode_t \<Rightarrow> u16" where
  "PowerMode_t_value UltraLow = 0"
| "PowerMode_t_value Low = 1"

text \<open>
  The data members of \<open>cSGPC3\<close>, \<open>m_wire\<close> apart (the bus is the record \<open>wire\<close> below).
  \<open>Millisecond_t\<close> is the type of \<open>millis()\<close>, an unsigned 32-bit count.
\<close>

record cSGPC3 =
  m_powerMode :: PowerMode_t
  m_tAvail :: u32
  m_featureSet :: u8

definition kTpuMs :: u32 where
  "kTpuMs = 600"

text \<open>
  What the driver sees of the world, and what it does to it.
  \<^item> \<open>millis_at k\<close> is the value of the \<open>k\<close>-th call of \<open>millis()\<close>; \<open>millis_calls\<close>
    counts the calls made.
  \<^item> \<open>endTransmission_at k\<close> is the status \<open>endTransmission()\<close> returns for the \<open>k\<close>-th
    transmission; \<open>transmissions\<close> logs the bytes written in each transmission made.
  \<^item> \<open>requestFrom_at k\<close> is the count \<open>requestFrom\<close> returns for the \<open>k\<close>-th request and
    \<open>received_at k\<close> the bytes the device supplies for it, held in the receive buffer
    of the bus; \<open>requests\<close> logs the byte count asked for in each request made.
  \<^item> \<open>delays\<close> logs the arguments of \<open>delay()\<close>.
  \<^item> \<open>stack_at k i\<close> is the byte at offset \<open>i\<close> of a local response buffer
    (\<open>std::uint8_t responseBuf[n]\<close>, declared without an initialiser) of a call entered
    when \<open>k\<close> transmissions have been made: whatever the stack holds there.
\<close>

record wire =
  millis_at :: "nat \<Rightarrow> u32"
  millis_calls :: nat
  endTransmission_at :: "nat \<Rightarrow> u8"
  transmissions :: "u8 list list"
  requestFrom_at :: "nat \<Rightarrow> u8"
  received_at :: "nat \<Rightarrow> u8 list"
  requests :: "nat list"
  delays :: "u32 list"
  stack_at :: "nat \<Rightarrow> nat \<Rightarrow> u8"

text \<open>
  Declarations that \<open>MCCI_Catena_SGPC3.cpp\<close> uses and the header at hand does not have:
  the default of the third argument of \<open>crc\<close>, the decoders
  \<open>featureSet_getProductType\<close> and \<open>featureSet_getProductVersion\<close>, and the enumerator
  \<open>ProductType_t::SGPC3\<close>. They are parameters of the model; \<open>'pt\<close> stands for
  \<open>ProductType_t\<close>.
\<close>

record 'pt decls =
  crc_default :: u8
  featureSet_getProductType :: "u16 \<Rightarrow> 'pt"
  ProductType_t_SGPC3 :: 'pt
  featureSet_getProductVersion :: "u16 \<Rightarrow> u8"

text \<open>
  Modelled from the spec: \<open>putbe16\<close> and \<open>getbe16\<close> are called by the source and
  defined nowhere in it; the specification has a word on the wire as two bytes, the
  most significant first. \<open>getbe16 buf off\<close> reads the word at \<open>buf + off\<close>.
\<close>

definition putbe16 :: "u16 \<Rightarrow> u8 list" where
  "putbe16 v = [ucast (drop_bit 8 v), ucast v]"

definition getbe16 :: "(nat \<Rightarrow> u8) \<Rightarrow> nat \<Rightarrow> u16" where
  "getbe16 buf off = push_bit 8 (ucast (buf off)) OR ucast (buf (off + 1))"

section \<open>The capability gate and the chip reset\<close>

definition isSupported :: "cSGPC3 \<Rightarrow> Command_t \<Rightarrow> Error_t" where
  "isSupported s c =
     (if m_featureSet s < getFeatureSet c then NotSupported else Success)"

definition handleChipReset :: "cSGPC3 \<Rightarrow> u32 \<Rightarrow> cSGPC3" where
  "handleChipReset s when = s\<lparr>m_powerMode := Low, m_tAvail := when + kTpuMs\<rparr>"

section \<open>The transaction: \<open>cSGPC3::sendCommand\<close>\<close>

text \<open>
  The condition of the \<open>while\<close> loop, as the source writes it:
  \<open>std::int32_t(this->m_tAvail - tNow < 0)\<close>. The comparison is inside the cast: the
  unsigned difference is compared with zero, and the truth value is what is converted
  to \<open>int32_t\<close> and tested.
\<close>

definition waitCondition :: "u32 \<Rightarrow> u32 \<Rightarrow> bool" where
  "waitCondition tAvail tNow = (sint (of_bool (tAvail - tNow < 0) :: u32) \<noteq> 0)"

text \<open>
  \<open>while (...) tNow = millis();\<close> with \<open>clock\<close> the readings of \<open>millis()\<close> and \<open>k\<close> the
  number of readings taken so far; it returns the number of readings taken and the last
  value of \<open>tNow\<close>.
\<close>

function waitLoop :: "(nat \<Rightarrow> u32) \<Rightarrow> nat \<Rightarrow> u32 \<Rightarrow> u32 \<Rightarrow> nat \<times> u32" where
  "waitLoop clock k tAvail tNow =
     (if waitCondition tAvail tNow then waitLoop clock (Suc k) tAvail (clock k)
      else (k, tNow))"
  by pat_completeness auto
termination
  by (relation "{}") (simp_all add: waitCondition_def)

declare waitLoop.simps [simp del]

text \<open>
  \<open>sendCommand(c, pParamBytes, pResultBytes)\<close>. A null \<open>pParamBytes\<close> is \<open>None\<close>. The
  body writes three bytes for each parameter word. It asks the bus for the response
  with \<open>requestFrom\<close> and compares the count; it has no call of \<open>read()\<close> and no
  assignment through \<open>pResultBytes\<close>, so the buffer behind that pointer is as it was
  and the argument is not used. The debug prints are compiled out (\<open>kfDebug = false\<close>).
\<close>

definition sendCommand ::
  "wire \<Rightarrow> cSGPC3 \<Rightarrow> Command_t \<Rightarrow> u8 list option \<Rightarrow> (nat \<Rightarrow> u8) option
     \<Rightarrow> Error_t \<times> wire \<times> cSGPC3" where
  "sendCommand w s c pParamBytes pResultBytes =
     (let cmd = getCommand c;
          (k, tNow) = waitLoop (millis_at w) (Suc (millis_calls w)) (m_tAvail s)
                        (millis_at w (millis_calls w));
          written = [ucast (drop_bit 8 cmd), ucast cmd] @
            (case pParamBytes of
               None \<Rightarrow> []
             | Some bytes \<Rightarrow> take (3 * unat (getParameterLength c)) bytes);
          i2c_result = endTransmission_at w (length (transmissions w));
          w = w\<lparr>millis_calls := k, transmissions := transmissions w @ [written]\<rparr>;
          s = s\<lparr>m_tAvail := tNow + getDelayMs c + 1\<rparr>
      in if i2c_result \<noteq> 0 then (WriteError, w, s)
         else
           let w = w\<lparr>delays := delays w @ [getDelayMs c]\<rparr>;
               nResult = getResponseLength c
           in if nResult = 0 then (Success, w, s)
              else
                let nReadFrom = requestFrom_at w (length (requests w));
                    w = w\<lparr>requests := requests w @ [unat nResult * 3]\<rparr>
                in if unat nReadFrom \<noteq> unat nResult * 3 then (ReadError, w, s)
                   else (Success, w, s))"

definition sendCommandBare :: "wire \<Rightarrow> cSGPC3 \<Rightarrow> Command_t \<Rightarrow> Error_t \<times> wire \<times> cSGPC3" where
  "sendCommandBare w s c = sendCommand w s c None None"

definition sendCommandWithParam ::
  "'pt decls \<Rightarrow> wire \<Rightarrow> cSGPC3 \<Rightarrow> Command_t \<Rightarrow> u16 \<Rightarrow> Error_t \<times> wire \<times> cSGPC3" where
  "sendCommandWithParam d w s c param =
     (let paramBuf = putbe16 param;
          paramBuf = paramBuf @ [crc paramBuf (crc_default d)]
      in sendCommand w s c (Some paramBuf) None)"

text \<open>
  The three functions with a response. The reference parameter \<open>response\<close> is an
  output: \<open>Some v\<close> when the function assigns \<open>v\<close> to it, \<open>None\<close> when it returns
  without assigning. \<open>responseBuf\<close> is the local array, with the contents the stack has
  at the call.
\<close>

definition sendCommandWithResponse ::
  "'pt decls \<Rightarrow> wire \<Rightarrow> cSGPC3 \<Rightarrow> Command_t \<Rightarrow> Error_t \<times> wire \<times> cSGPC3 \<times> u16 option" where
  "sendCommandWithResponse d w s c =
     (let responseBuf = stack_at w (length (transmissions w));
          (result, w, s) = sendCommand w s c None (Some responseBuf)
      in if \<not> isSuccess result then (result, w, s, None)
         else if crc [responseBuf 0, responseBuf 1] (crc_default d) \<noteq> responseBuf 2
           then (BadCRC, w, s, None)
         else (Success, w, s, Some (getbe16 responseBuf 0)))"

definition sendCommandWithTwoResponses ::
  "'pt decls \<Rightarrow> wire \<Rightarrow> cSGPC3 \<Rightarrow> Command_t
     \<Rightarrow> Error_t \<times> wire \<times> cSGPC3 \<times> (u16 \<times> u16) option" where
  "sendCommandWithTwoResponses d w s c =
     (let responseBuf = stack_at w (length (transmissions w));
          (result, w, s) = sendCommand w s c None (Some responseBuf)
      in if \<not> isSuccess result then (result, w, s, None)
         else if crc [responseBuf 0, responseBuf 1] (crc_default d) \<noteq> responseBuf 2
           then (BadCRC, w, s, None)
         else if crc [responseBuf 3, responseBuf 4] (crc_default d) \<noteq> responseBuf 5
           then (BadCRC, w, s, None)
         else (Success, w, s, Some (getbe16 responseBuf 0, getbe16 responseBuf 3)))"

definition sendCommandWithThreeResponses ::
  "'pt decls \<Rightarrow> wire \<Rightarrow> cSGPC3 \<Rightarrow> Command_t \<Rightarrow> Error_t \<times> wire \<times> cSGPC3 \<times> u64 option" where
  "sendCommandWithThreeResponses d w s c =
     (let responseBuf = stack_at w (length (transmissions w));
          (result, w, s) = sendCommand w s c None (Some responseBuf)
      in if \<not> isSuccess result then (result, w, s, None)
         else if crc [responseBuf 0, responseBuf 1] (crc_default d) \<noteq> responseBuf 2
           then (BadCRC, w, s, None)
         else if crc [responseBuf 3, responseBuf 4] (crc_default d) \<noteq> responseBuf 5
           then (BadCRC, w, s, None)
         else if crc [responseBuf 6, responseBuf 7] (crc_default d) \<noteq> responseBuf 8
           then (BadCRC, w, s, None)
         else (Success, w, s,
                 Some (push_bit 32 (ucast (getbe16 responseBuf 0)) OR
                       push_bit 16 (ucast (getbe16 responseBuf 3)) OR
                       ucast (getbe16 responseBuf 6))))"

section \<open>The templates of the header\<close>

text \<open>
  \<open>sendSynchronous<c>()\<close>, \<open>sendSynchronous<c>(param)\<close> and the three overloads of
  \<open>sendAndGetSynchronous<c>\<close>; the template argument is the first argument here. Their
  \<open>static_assert\<close>s fix the shape of \<open>c\<close> at compile time and have no run-time part.
  The header tests the gate's result with \<open>isSupported(eSupported)\<close> and calls
  \<open>sendCommandParam\<close>; no function of those names takes these arguments, and the
  model reads them as \<open>isSuccess(eSupported)\<close> and \<open>sendCommandWithParam\<close>.
\<close>

definition sendSynchronous :: "wire \<Rightarrow> cSGPC3 \<Rightarrow> Command_t \<Rightarrow> Error_t \<times> wire \<times> cSGPC3" where
  "sendSynchronous w s c =
     (let eSupported = isSupported s c
      in if \<not> isSuccess eSupported then (eSupported, w, s)
         else sendCommandBare w s c)"

definition sendSynchronous_param ::
  "'pt decls \<Rightarrow> wire \<Rightarrow> cSGPC3 \<Rightarrow> Command_t \<Rightarrow> u16 \<Rightarrow> Error_t \<times> wire \<times> cSGPC3" where
  "sendSynchronous_param d w s c param =
     (let eSupported = isSupported s c
      in if \<not> isSuccess eSupported then (eSupported, w, s)
         else sendCommandWithParam d w s c param)"

definition sendAndGetSynchronous ::
  "'pt decls \<Rightarrow> wire \<Rightarrow> cSGPC3 \<Rightarrow> Command_t \<Rightarrow> Error_t \<times> wire \<times> cSGPC3 \<times> u16 option" where
  "sendAndGetSynchronous d w s c =
     (let eSupported = isSupported s c
      in if \<not> isSuccess eSupported then (eSupported, w, s, None)
         else sendCommandWithResponse d w s c)"

definition sendAndGetSynchronous_two ::
  "'pt decls \<Rightarrow> wire \<Rightarrow> cSGPC3 \<Rightarrow> Command_t
     \<Rightarrow> Error_t \<times> wire \<times> cSGPC3 \<times> (u16 \<times> u16) option" where
  "sendAndGetSynchronous_two d w s c =
     (let eSupported = isSupported s c
      in if \<not> isSuccess eSupported then (eSupported, w, s, None)
         else sendCommandWithTwoResponses d w s c)"

definition sendAndGetSynchronous_three ::
  "'pt decls \<Rightarrow> wire \<Rightarrow> cSGPC3 \<Rightarrow> Command_t \<Rightarrow> Error_t \<times> wire \<times> cSGPC3 \<times> u64 option" where
  "sendAndGetSynchronous_three d w s c =
     (let eSupported = isSupported s c
      in if \<not> isSuccess eSupported then (eSupported, w, s, None)
         else sendCommandWithThreeResponses d w s c)"

section \<open>The public operations\<close>

definition tvoc_init_continuous :: "wire \<Rightarrow> cSGPC3 \<Rightarrow> Error_t \<times> wire \<times> cSGPC3" where
  "tvoc_init_continuous w s =
     (let result = isSupported s Command_t_tvoc_init_continuous
      in if isSuccess result then sendSynchronous w s Command_t_tvoc_init_continuous
         else (result, w, s))"

definition measure_tvoc_synchronous ::
  "'pt decls \<Rightarrow> wire \<Rightarrow> cSGPC3 \<Rightarrow> Error_t \<times> wire \<times> cSGPC3 \<times> u16 option" where
  "measure_tvoc_synchronous d w s = sendAndGetSynchronous d w s Command_t_measure_tvoc"

definition set_power_mode_synchronous ::
  "'pt decls \<Rightarrow> wire \<Rightarrow> cSGPC3 \<Rightarrow> PowerMode_t \<Rightarrow> Error_t \<times> wire \<times> cSGPC3" where
  "set_power_mode_synchronous d w s mode =
     (let (result, w, s) =
            sendSynchronous_param d w s Command_t_set_power_mode (PowerMode_t_value mode);
          s = (if isSuccess result then s\<lparr>m_powerMode := mode\<rparr> else s)
      in (result, w, s))"

text \<open>
  \<open>cSGPC3::begin(mode)\<close>. The call \<open>handleChipReset()\<close> takes its default argument
  \<open>millis()\<close>, one reading of the clock. The result of \<open>set_power_mode_synchronous\<close> is
  stored in \<open>result\<close> and the next statement stores the result of
  \<open>tvoc_init_continuous\<close> in the same variable. \<open>featureSet\<close> is read only after a
  successful result, for which \<open>sendAndGetSynchronous\<close> has assigned it; the branch
  \<open>None\<close> stands for the uninitialised variable and is not reached then.
\<close>

definition begin_cSGPC3 ::
  "'pt decls \<Rightarrow> wire \<Rightarrow> cSGPC3 \<Rightarrow> PowerMode_t \<Rightarrow> Error_t \<times> wire \<times> cSGPC3" where
  "begin_cSGPC3 d w s mode =
     (let when = millis_at w (millis_calls w);
          w = w\<lparr>millis_calls := Suc (millis_calls w)\<rparr>;
          s = handleChipReset s when;
          (result, w, s, featureSet) =
            sendAndGetSynchronous d w s Command_t_get_feature_set_version;
          s = s\<lparr>m_featureSet := 0\<rparr>
      in if \<not> isSuccess result then (result, w, s)
         else
           case featureSet of
             None \<Rightarrow> (result, w, s)
           | Some featureSet \<Rightarrow>
               if featureSet_getProductType d featureSet \<noteq> ProductType_t_SGPC3 d
                 then (WrongDeviceType, w, s)
               else
                 let productVersion = featureSet_getProductVersion d featureSet
                 in if productVersion < 6 then (WrongDeviceType, w, s)
                    else
                      let s = s\<lparr>m_featureSet := productVersion\<rparr>;
                          (result, w, s) = set_power_mode_synchronous d w s mode;
                          (result, w, s) = tvoc_init_continuous w s
                      in (result, w, s))"

text \<open>
  The statements of \<open>begin\<close> up to and including the discovery command, on their own:
  the reset with one reading of the clock, then \<open>get_feature_set_version\<close>.
\<close>

definition discovery ::
  "'pt decls \<Rightarrow> wire \<Rightarrow> cSGPC3 \<Rightarrow> Error_t \<times> wire \<times> cSGPC3 \<times> u16 option" where
  "discovery d w s =
     sendAndGetSynchronous d (w\<lparr>millis_calls := Suc (millis_calls w)\<rparr>)
       (handleChipReset s (millis_at w (millis_calls w))) Command_t_get_feature_set_version"

section \<open>Sample surroundings\<close>

text \<open>
  Concrete values on which the model is run below. \<open>sample_decls\<close> fills the missing
  declarations in: the seed \<open>0xFF\<close>, the product type in the top four bits of the
  feature-set word with \<open>SGPC3 = 1\<close>, the product version in its low byte.
  \<open>sample_wire clock status supplied onStack\<close> is a bus that has seen no traffic, with
  the given clock and transmission statuses, a device that supplies the bytes
  \<open>supplied\<close> to every request, and the bytes \<open>onStack\<close> where a response buffer is
  allocated.
\<close>

definition sample_decls :: "u8 decls" where
  "sample_decls =
     \<lparr>crc_default = 0xFF,
      featureSet_getProductType = (\<lambda>fs. ucast (drop_bit 12 fs)),
      ProductType_t_SGPC3 = 1,
      featureSet_getProductVersion = (\<lambda>fs. ucast fs)\<rparr>"

definition sample_wire :: "(nat \<Rightarrow> u32) \<Rightarrow> (nat \<Rightarrow> u8) \<Rightarrow> u8 list \<Rightarrow> u8 list \<Rightarrow> wire" where
  "sample_wire clock status supplied onStack =
     \<lparr>millis_at = clock, millis_calls = 0,
      endTransmission_at = status, transmissions = [],
      requestFrom_at = (\<lambda>k. word_of_nat (length supplied)),
      received_at = (\<lambda>k. supplied), requests = [], delays = [],
      stack_at = (\<lambda>k i. if i < length onStack then onStack ! i else 0)\<rparr>"

section \<open>Facts about words used below\<close>

lemmas mask_defs =
  kCommandMask_def kParamLenMask_def kResponseLenMask_def kFeatureMask_def kDelayMask_def

lemmas cmd_defs =
  CommandInit_def getCommand_def getResponseLength_def getParameterLength_def
  getFeatureSet_def getDelayMs_def mask_defs

lemma masks_as_mask:
  "kCommandMask = mask 14"
  "kParamLenMask = push_bit 16 (mask 1)"
  "kResponseLenMask = push_bit 17 (mask 3)"
  "kFeatureMask = push_bit 20 (mask 4)"
  "kDelayMask = push_bit 24 (mask 8)"
  by (simp_all add: mask_defs mask_eq_exp_minus_1)

lemma nibble_mask: "(0xF::u8) = mask 4"
  by (simp add: mask_eq_exp_minus_1)

lemma funpow4: "(f ^^ 4) x = f (f (f (f x)))"
  by (simp add: numeral_eq_Suc)

lemma funpow8: "(f ^^ 8) x = (f ^^ 4) ((f ^^ 4) x)"
  using funpow_add [of 4 4 f] by simp

lemma push4_push4: "push_bit 4 (push_bit 4 (x::u8)) = 0"
  by (simp add: bit_eq_iff bit_simps)

lemma drop4_push4: "drop_bit 4 (push_bit 4 (b::u8)) = b AND 0xF"
  unfolding nibble_mask by (auto simp add: bit_eq_iff bit_simps)

lemma drop4_low: "drop_bit 4 (c::u8) AND 0xF = drop_bit 4 c"
  unfolding nibble_mask by (auto simp add: bit_eq_iff bit_simps dest: bit_imp_le_length)

lemma nibbles_of_byte: "(x::u8) = push_bit 4 (drop_bit 4 x) XOR (x AND 0xF)"
  unfolding nibble_mask by (auto simp add: bit_eq_iff bit_simps dest: bit_imp_le_length)

lemma high_nibble_less: "unat (drop_bit 4 (x::u8)) < 16"
proof -
  have "drop_bit 4 x = take_bit 4 (drop_bit 4 x)"
    using drop4_low [of x] by (simp add: nibble_mask take_bit_eq_mask)
  then have "unat (drop_bit 4 x) = take_bit 4 (unat (drop_bit 4 x))"
    by (metis unsigned_take_bit_eq)
  also have "\<dots> < 2 ^ 4"
    by (rule take_bit_nat_less_exp)
  finally show ?thesis by simp
qed

lemma u8_upto_3: "(x::u8) \<le> 3 \<Longrightarrow> x = 0 \<or> x = 1 \<or> x = 2 \<or> x = 3"
proof -
  assume "x \<le> 3"
  then have "unat x \<le> 3" by (simp add: word_le_nat_alt)
  then consider "unat x = 0" | "unat x = 1" | "unat x = 2" | "unat x = 3" by arith
  then show ?thesis
  proof cases
    case 1
    from arg_cong [where f = "word_of_nat :: nat \<Rightarrow> u8", OF 1] show ?thesis by simp
  next
    case 2
    from arg_cong [where f = "word_of_nat :: nat \<Rightarrow> u8", OF 2] show ?thesis by simp
  next
    case 3
    from arg_cong [where f = "word_of_nat :: nat \<Rightarrow> u8", OF 3] show ?thesis by simp
  next
    case 4
    from arg_cong [where f = "word_of_nat :: nat \<Rightarrow> u8", OF 4] show ?thesis by simp
  qed
qed

lemma response_words: "(r::u8) \<le> 3 \<Longrightarrow> take_bit 3 ((3 * r) div 3) = r"
  by (drule u8_upto_3) auto

lemma param_words: "(p::u8) \<le> 1 \<Longrightarrow> take_bit 1 ((3 * p) div 3) = p"
proof -
  assume le: "p \<le> 1"
  then have "p \<le> 3" by (simp add: word_le_nat_alt)
  then have "p = 0 \<or> p = 1 \<or> p = 2 \<or> p = 3" by (rule u8_upto_3)
  with le show ?thesis by (auto simp add: word_le_nat_alt)
qed

lemma feature_bits: "(f::u8) \<le> 15 \<Longrightarrow> take_bit 4 f = f"
proof -
  assume "f \<le> 15"
  then have "f < 2 ^ 4" by (simp add: word_le_nat_alt word_less_nat_alt)
  then show ?thesis by (simp add: take_bit_eq_mask less_mask_eq)
qed

section \<open>The descriptor: what each accessor returns\<close>

lemma getCommand_CommandInit:
  "code < 2 ^ 14 \<Longrightarrow> getCommand (CommandInit code pl rl dl fs) = code"
proof -
  assume "code < 2 ^ 14"
  then have c: "take_bit 14 code = code"
    by (simp add: take_bit_eq_mask less_mask_eq)
  have "getCommand (CommandInit code pl rl dl fs) = take_bit 14 code"
    unfolding getCommand_def CommandInit_def masks_as_mask
    by (rule bit_word_eqI) (auto simp add: bit_simps)
  with c show ?thesis by simp
qed

lemma getDelayMs_CommandInit:
  "getDelayMs (CommandInit code pl rl dl fs) = ucast dl"
  unfolding getDelayMs_def CommandInit_def masks_as_mask
  by (rule bit_word_eqI) (auto simp add: bit_simps dest: bit_imp_le_length)

lemma getFeatureSet_CommandInit:
  "getFeatureSet (CommandInit code pl rl dl fs) = take_bit 4 fs"
  unfolding getFeatureSet_def CommandInit_def masks_as_mask
  by (rule bit_word_eqI) (auto simp add: bit_simps dest: bit_imp_le_length)

lemma getResponseLength_CommandInit:
  "getResponseLength (CommandInit code pl rl dl fs) = take_bit 3 (rl div 3)"
  unfolding getResponseLength_def CommandInit_def masks_as_mask
  by (rule bit_word_eqI) (auto simp add: bit_simps dest: bit_imp_le_length)

lemma getParameterLength_CommandInit:
  "getParameterLength (CommandInit code pl rl dl fs) = take_bit 1 (pl div 3)"
  unfolding getParameterLength_def CommandInit_def masks_as_mask
  by (rule bit_word_eqI) (auto simp add: bit_simps bit_0 dest: bit_imp_le_length)

text \<open>
  C3, as stated, fails. The constructor takes the two lengths in bytes and stores them
  divided by three, and the accessors return the stored counts of words. Given the
  parameter word count 1 and the response word count 3 as they are, the constructor
  stores 0 and 1, and the accessors return 0 and 1, not the inputs 1 and 3.
\<close>

theorem CommandInit_word_counts_not_returned:
  "getParameterLength (CommandInit 0x209f 1 3 10 6) = 0
   \<and> getResponseLength (CommandInit 0x209f 1 3 10 6) = 1
   \<and> getParameterLength (CommandInit 0x209f 1 3 10 6) \<noteq> 1
   \<and> getResponseLength (CommandInit 0x209f 1 3 10 6) \<noteq> 3"
  by (simp add: cmd_defs)

text \<open>
  C3, amended. For every opcode below \<open>2^14\<close>, parameter word count \<open>p\<close> of 0 or 1,
  response word count \<open>r\<close> of 0 to 3, delay of 0 to 255 and feature level of 0 to 15,
  the descriptor built from the opcode, the byte lengths \<open>3 * p\<close> and \<open>3 * r\<close>, the delay
  and the feature level gives back, through its accessors, the opcode, the word counts
  \<open>p\<close> and \<open>r\<close>, the feature level and the delay.
\<close>

theorem CommandInit_roundtrip:
  assumes "opcode < 2 ^ 14" and "p \<le> 1" and "r \<le> 3" and "f \<le> 15"
  shows "getCommand (CommandInit opcode (3 * p) (3 * r) delayMs f) = opcode
       \<and> getParameterLength (CommandInit opcode (3 * p) (3 * r) delayMs f) = p
       \<and> getResponseLength (CommandInit opcode (3 * p) (3 * r) delayMs f) = r
       \<and> getFeatureSet (CommandInit opcode (3 * p) (3 * r) delayMs f) = f
       \<and> getDelayMs (CommandInit opcode (3 * p) (3 * r) delayMs f) = ucast delayMs"
  unfolding getParameterLength_CommandInit getResponseLength_CommandInit
    getFeatureSet_CommandInit getDelayMs_CommandInit
  using assms
  by (simp only: getCommand_CommandInit param_words response_words feature_bits simp_thms)

text \<open>
  C3, an instance: opcode \<open>0x209f\<close>, one parameter word, three response words, a delay
  of 220 ms and feature level 6.
\<close>

theorem CommandInit_roundtrip_witness:
  "getCommand (CommandInit 0x209f 3 9 220 6) = 0x209f
   \<and> getParameterLength (CommandInit 0x209f 3 9 220 6) = 1
   \<and> getResponseLength (CommandInit 0x209f 3 9 220 6) = 3
   \<and> getFeatureSet (CommandInit 0x209f 3 9 220 6) = 6
   \<and> getDelayMs (CommandInit 0x209f 3 9 220 6) = 220"
  using CommandInit_roundtrip [of "0x209f" 1 3 6 220] by simp

section \<open>The checksum\<close>

text \<open>
  C9. The checksum is a function of the bytes of the buffer and of the seed and of
  nothing else: \<open>crc\<close> reads only its arguments and the constant table, which the
  embedding as a HOL function of the byte list and the seed records. For a buffer of
  length zero the loop body never runs and the seed comes back unchanged; and running
  over a buffer in two parts, the second seeded with the result of the first, gives the
  value of the whole, so no state is kept between calls.
\<close>

theorem crc_empty_is_seed:
  "crc [] seed = seed \<and> crc (xs @ ys) seed = crc ys (crc xs seed)"
  by (induction xs arbitrary: seed) simp_all

subsection \<open>The table against the bitwise computation\<close>

lemma crcTable_entries:
  "crcTable = map (\<lambda>i. (crc8_bit_step ^^ 4) (push_bit 4 (word_of_nat i))) [0..<16]"
  by code_simp

lemma crcTable_nth:
  "\<forall>n \<in> set [0..<16]. (crc8_bit_step ^^ 4) (push_bit 4 (word_of_nat n)) = crcTable ! n"
  by code_simp

lemma crc8_bit_step_xor:
  "crc8_bit_step (a XOR b) = crc8_bit_step a XOR crc8_bit_step b"
  by (auto simp: crc8_bit_step_def bit_simps ac_simps)

lemma four_steps_xor:
  "(crc8_bit_step ^^ 4) (a XOR b) = (crc8_bit_step ^^ 4) a XOR (crc8_bit_step ^^ 4) b"
  by (simp add: funpow4 crc8_bit_step_xor)

lemma crc8_bit_step_top_clear: "\<not> bit c 7 \<Longrightarrow> crc8_bit_step c = push_bit 1 c"
  by (simp add: crc8_bit_step_def)

lemma four_steps_low_nibble: "(crc8_bit_step ^^ 4) (x AND 0xF) = push_bit 4 x"
proof -
  let ?y = "take_bit 4 x"
  have a: "\<not> bit ?y 7"
    by (simp add: bit_simps)
  have b: "\<not> bit (push_bit 1 ?y) 7"
    by (simp only: bit_push_bit_iff bit_take_bit_iff) simp
  have c: "\<not> bit (push_bit 1 (push_bit 1 ?y)) 7"
    by (simp only: bit_push_bit_iff bit_take_bit_iff) simp
  have d: "\<not> bit (push_bit 1 (push_bit 1 (push_bit 1 ?y))) 7"
    by (simp only: bit_push_bit_iff bit_take_bit_iff) simp
  have "(crc8_bit_step ^^ 4) ?y = push_bit 1 (push_bit 1 (push_bit 1 (push_bit 1 ?y)))"
    unfolding funpow4 crc8_bit_step_top_clear [OF a] crc8_bit_step_top_clear [OF b]
      crc8_bit_step_top_clear [OF c] crc8_bit_step_top_clear [OF d] ..
  also have "\<dots> = push_bit 4 ?y"
    by (simp add: push_bit_eq_mult)
  also have "\<dots> = push_bit 4 x"
    by (auto simp add: bit_eq_iff bit_simps)
  finally show ?thesis
    by (simp add: nibble_mask take_bit_eq_mask)
qed

text \<open>Four bit steps are one table step: the shape of each half of \<open>crc_byte\<close>.\<close>

lemma four_steps_table:
  "(crc8_bit_step ^^ 4) x = push_bit 4 x XOR crcTable ! unat (drop_bit 4 x)"
proof -
  let ?h = "drop_bit 4 x"
  have "unat ?h \<in> set [0..<16]"
    using high_nibble_less [of x] by simp
  with crcTable_nth
  have "(crc8_bit_step ^^ 4) (push_bit 4 (word_of_nat (unat ?h))) = crcTable ! unat ?h"
    by blast
  then have hi: "(crc8_bit_step ^^ 4) (push_bit 4 ?h) = crcTable ! unat ?h"
    by simp
  have "(crc8_bit_step ^^ 4) x = (crc8_bit_step ^^ 4) (push_bit 4 ?h XOR (x AND 0xF))"
    using nibbles_of_byte [of x] by simp
  also have "\<dots> = crcTable ! unat ?h XOR push_bit 4 x"
    unfolding four_steps_xor hi four_steps_low_nibble ..
  finally show ?thesis
    by (simp add: ac_simps)
qed

lemma crc_byte_bitwise: "crc_byte c b = crc8_bitwise_byte c b"
proof -
  define c1 where "c1 = push_bit 4 c XOR crcTable ! unat (drop_bit 4 (b XOR c))"
  have first: "(crc8_bit_step ^^ 4) (c XOR b) = c1 XOR push_bit 4 b"
    by (simp add: four_steps_table c1_def ac_simps)
  have idx: "drop_bit 4 (c1 XOR push_bit 4 b) = (drop_bit 4 c1 XOR b) AND 0xF"
    by (simp add: drop4_push4 bit.conj_xor_distrib2 drop4_low)
  have "(crc8_bit_step ^^ 4) (c1 XOR push_bit 4 b)
        = push_bit 4 c1 XOR crcTable ! unat ((drop_bit 4 c1 XOR b) AND 0xF)"
    unfolding four_steps_table idx by (simp add: push4_push4)
  then show ?thesis
    by (simp add: crc_byte_def crc8_bitwise_byte_def funpow8 first Let_def c1_def)
qed

text \<open>
  C10. For every buffer and every seed the table-driven \<open>crc\<close> has the value of the
  bitwise CRC-8 of polynomial \<open>0x31\<close>, most significant bit first, the byte XORed into
  the accumulator, nothing XORed at the end; and the table is, entry by entry, the
  result of four bit steps on the nibble \<open>i\<close> placed in the high four bits.
\<close>

theorem crc_is_bitwise_crc8:
  "crc buf seed = crc8_bitwise buf seed
   \<and> crcTable = map (\<lambda>i. (crc8_bit_step ^^ 4) (push_bit 4 (word_of_nat i))) [0..<16]"
proof
  show "crc buf seed = crc8_bitwise buf seed"
    by (induction buf arbitrary: seed) (simp_all add: crc_byte_bitwise)
  show "crcTable = map (\<lambda>i. (crc8_bit_step ^^ 4) (push_bit 4 (word_of_nat i))) [0..<16]"
    by (rule crcTable_entries)
qed

section \<open>The capability gate\<close>

text \<open>
  C7. For every session and every descriptor, \<open>isSupported\<close> returns \<open>NotSupported\<close>
  exactly when the feature level of the session is strictly below the level the
  descriptor requires, and \<open>Success\<close> otherwise; with the two levels equal it returns
  \<open>Success\<close>.
\<close>

theorem isSupported_iff_level_below:
  "(isSupported s c = NotSupported \<longleftrightarrow> m_featureSet s < getFeatureSet c)
   \<and> (isSupported s c = Success \<longleftrightarrow> getFeatureSet c \<le> m_featureSet s)
   \<and> isSupported (s\<lparr>m_featureSet := getFeatureSet c\<rparr>) c = Success"
  by (auto simp add: isSupported_def)

section \<open>The transaction\<close>

lemma waitCondition_never: "\<not> waitCondition tAvail tNow"
  by (simp add: waitCondition_def)

text \<open>The loop returns without a further reading of the clock, whatever the two times.\<close>

lemma waitLoop_returns_at_once: "waitLoop clock k tAvail tNow = (k, tNow)"
  by (subst waitLoop.simps) (simp add: waitCondition_never)

lemma sendCommand_session:
  "snd (snd (sendCommand w s c p r)) =
     s\<lparr>m_tAvail := millis_at w (millis_calls w) + getDelayMs c + 1\<rparr>"
  by (simp add: sendCommand_def waitLoop_returns_at_once Let_def)

lemma sendCommand_result:
  "fst (sendCommand w s c p r) =
     (if endTransmission_at w (length (transmissions w)) \<noteq> 0 then WriteError
      else if getResponseLength c = 0 then Success
      else if unat (requestFrom_at w (length (requests w))) \<noteq> unat (getResponseLength c) * 3
        then ReadError
      else Success)"
  by (simp add: sendCommand_def waitLoop_returns_at_once Let_def)

lemma sendCommand_transmissions:
  "transmissions (fst (snd (sendCommand w s c p r))) =
     transmissions w @
       [[ucast (drop_bit 8 (getCommand c)), ucast (getCommand c)] @
        (case p of None \<Rightarrow> [] | Some bytes \<Rightarrow> take (3 * unat (getParameterLength c)) bytes)]"
  by (simp add: sendCommand_def waitLoop_returns_at_once Let_def)

lemma sendCommand_millis_calls:
  "millis_calls (fst (snd (sendCommand w s c p r))) = Suc (millis_calls w)"
  by (simp add: sendCommand_def waitLoop_returns_at_once Let_def)

lemmas run_defs =
  sendCommand_def waitLoop_returns_at_once Let_def
  sendCommandBare_def sendCommandWithParam_def sendCommandWithResponse_def
  sendSynchronous_def sendSynchronous_param_def sendAndGetSynchronous_def
  isSupported_def isSuccess_def handleChipReset_def
  putbe16_def getbe16_def crc_byte_def crcTable_def

text \<open>
  C1, the code at the input of the claim. The clock reads \<open>0xFFFFFFF0\<close> at the call and
  counts up by one at each further reading; \<open>m_tAvail\<close> is \<open>0x00000010\<close>, 32 ms ahead
  of the clock in signed 32-bit difference. \<open>sendCommand\<close> reads the clock once, writes
  the command \<open>0x20ae\<close> to the bus and returns \<open>Success\<close>: the write is made at
  \<open>0xFFFFFFF0\<close>, as the new \<open>m_tAvail = 0xFFFFFFF0 + 10 + 1\<close> records.
\<close>

theorem sendCommand_writes_before_tAvail:
  "fst (sendCommand (sample_wire (\<lambda>k. 0xFFFFFFF0 + word_of_nat k) (\<lambda>k. 0) [] [])
          \<lparr>m_powerMode = Low, m_tAvail = 0x10, m_featureSet = 6\<rparr>
          Command_t_tvoc_init_continuous None None) = Success
   \<and> millis_calls (fst (snd (sendCommand
          (sample_wire (\<lambda>k. 0xFFFFFFF0 + word_of_nat k) (\<lambda>k. 0) [] [])
          \<lparr>m_powerMode = Low, m_tAvail = 0x10, m_featureSet = 6\<rparr>
          Command_t_tvoc_init_continuous None None))) = 1
   \<and> transmissions (fst (snd (sendCommand
          (sample_wire (\<lambda>k. 0xFFFFFFF0 + word_of_nat k) (\<lambda>k. 0) [] [])
          \<lparr>m_powerMode = Low, m_tAvail = 0x10, m_featureSet = 6\<rparr>
          Command_t_tvoc_init_continuous None None))) = [[0x20, 0xae]]
   \<and> m_tAvail (snd (snd (sendCommand
          (sample_wire (\<lambda>k. 0xFFFFFFF0 + word_of_nat k) (\<lambda>k. 0) [] [])
          \<lparr>m_powerMode = Low, m_tAvail = 0x10, m_featureSet = 6\<rparr>
          Command_t_tvoc_init_continuous None None))) = 0xFFFFFFFB"
  by (simp add: sendCommand_result sendCommand_millis_calls sendCommand_transmissions
      sendCommand_session sample_wire_def Command_t_tvoc_init_continuous_def cmd_defs)

text \<open>
  C4. For every command, bus, session and parameter buffer, \<open>sendCommand\<close> leaves
  \<open>m_tAvail\<close> at the clock reading it took plus the delay of the command plus one, in
  32-bit arithmetic; this is so whatever the result, and the result is \<open>WriteError\<close>
  exactly when \<open>endTransmission\<close> returned a status other than zero.
\<close>

theorem sendCommand_sets_tAvail:
  "m_tAvail (snd (snd (sendCommand w s c p r))) =
     millis_at w (millis_calls w) + getDelayMs c + 1
   \<and> (fst (sendCommand w s c p r) = WriteError
        \<longleftrightarrow> endTransmission_at w (length (transmissions w)) \<noteq> 0)"
  by (simp add: sendCommand_session sendCommand_result)

text \<open>
  C2, the code at a failing input. The device answers the request of \<open>measure_tvoc\<close>
  with the three bytes \<open>0x12 0x34 0x00\<close>, whose last byte is not the checksum \<open>0x37\<close> of
  the first two; the stack holds \<open>0xBE 0xEF 0x92\<close> where \<open>responseBuf\<close> is allocated.
  \<open>sendCommandWithResponse\<close> returns \<open>Success\<close> and assigns \<open>0xBEEF\<close> to the response:
  it checks the bytes of its own buffer, into which nothing was read.
\<close>

theorem sendCommandWithResponse_checks_own_buffer:
  "received_at (sample_wire (\<lambda>k. 0) (\<lambda>k. 0) [0x12, 0x34, 0x00] [0xBE, 0xEF, 0x92]) 0
     = [0x12, 0x34, 0x00]
   \<and> crc [0x12, 0x34] (crc_default sample_decls) = 0x37
   \<and> fst (sendCommandWithResponse sample_decls
          (sample_wire (\<lambda>k. 0) (\<lambda>k. 0) [0x12, 0x34, 0x00] [0xBE, 0xEF, 0x92])
          \<lparr>m_powerMode = Low, m_tAvail = 0, m_featureSet = 6\<rparr>
          Command_t_measure_tvoc) = Success
   \<and> snd (snd (snd (sendCommandWithResponse sample_decls
          (sample_wire (\<lambda>k. 0) (\<lambda>k. 0) [0x12, 0x34, 0x00] [0xBE, 0xEF, 0x92])
          \<lparr>m_powerMode = Low, m_tAvail = 0, m_featureSet = 6\<rparr>
          Command_t_measure_tvoc))) = Some 0xBEEF"
  by (simp add: run_defs cmd_defs sample_wire_def sample_decls_def Command_t_measure_tvoc_def)

section \<open>Setting the power mode\<close>

lemma sendSynchronous_param_powerMode:
  "m_powerMode (snd (snd (sendSynchronous_param d w s c v))) = m_powerMode s"
  by (simp add: sendSynchronous_param_def sendCommandWithParam_def sendCommand_session Let_def)

lemma set_power_mode_success_stores_mode:
  assumes "fst (sendSynchronous_param d w s Command_t_set_power_mode (PowerMode_t_value mode))
             = Success"
  shows "fst (set_power_mode_synchronous d w s mode) = Success
    \<and> m_powerMode (snd (snd (set_power_mode_synchronous d w s mode))) = mode"
proof -
  obtain r w1 s1 where
    e: "sendSynchronous_param d w s Command_t_set_power_mode (PowerMode_t_value mode)
          = (r, w1, s1)"
    by (cases "sendSynchronous_param d w s Command_t_set_power_mode (PowerMode_t_value mode)")
      auto
  from assms have "r = Success"
    by (simp add: e)
  then show ?thesis
    by (simp add: set_power_mode_synchronous_def isSuccess_def Let_def e)
qed

text \<open>
  C8. Whenever the underlying command of \<open>set_power_mode_synchronous\<close>, the call
  \<open>sendSynchronous<set_power_mode>(std::uint16_t(mode))\<close>, gives a result other than
  \<open>Success\<close>, whatever the failure and whatever the mode the session had, then
  \<open>set_power_mode_synchronous\<close> returns that failing result, and with it the bus and
  the session exactly as the underlying command left them; the stored power mode is the
  one the session had before the call.
\<close>

theorem set_power_mode_failure_keeps_mode:
  assumes "fst (sendSynchronous_param d w s Command_t_set_power_mode (PowerMode_t_value mode))
             \<noteq> Success"
  shows "fst (set_power_mode_synchronous d w s mode) =
           fst (sendSynchronous_param d w s Command_t_set_power_mode (PowerMode_t_value mode))
    \<and> fst (set_power_mode_synchronous d w s mode) \<noteq> Success
    \<and> set_power_mode_synchronous d w s mode =
           sendSynchronous_param d w s Command_t_set_power_mode (PowerMode_t_value mode)
    \<and> m_powerMode (snd (snd (set_power_mode_synchronous d w s mode))) = m_powerMode s"
proof -
  obtain r w1 s1 where
    e: "sendSynchronous_param d w s Command_t_set_power_mode (PowerMode_t_value mode)
          = (r, w1, s1)"
    by (cases "sendSynchronous_param d w s Command_t_set_power_mode (PowerMode_t_value mode)")
      auto
  from assms have failed: "r \<noteq> Success"
    by (simp add: e)
  from sendSynchronous_param_powerMode [of d w s Command_t_set_power_mode "PowerMode_t_value mode"]
  have kept: "m_powerMode s1 = m_powerMode s"
    by (simp add: e)
  have "set_power_mode_synchronous d w s mode = (r, w1, s1)"
    using failed by (simp add: set_power_mode_synchronous_def isSuccess_def Let_def e)
  then show ?thesis
    using failed kept by (simp add: e)
qed

text \<open>
  C8, an instance: the session is in \<open>UltraLow\<close> at feature level 6, the mode asked for
  is \<open>Low\<close>, and the bus refuses the transmission with status 2. The underlying command
  gives \<open>WriteError\<close>; \<open>set_power_mode_synchronous\<close> returns \<open>WriteError\<close> and the stored
  mode is still \<open>UltraLow\<close>.
\<close>

theorem set_power_mode_failure_keeps_mode_witness:
  "fst (sendSynchronous_param sample_decls
          (sample_wire (\<lambda>k. 1000) (\<lambda>k. 2) [] [])
          \<lparr>m_powerMode = UltraLow, m_tAvail = 0, m_featureSet = 6\<rparr>
          Command_t_set_power_mode (PowerMode_t_value Low)) = WriteError
   \<and> fst (set_power_mode_synchronous sample_decls
          (sample_wire (\<lambda>k. 1000) (\<lambda>k. 2) [] [])
          \<lparr>m_powerMode = UltraLow, m_tAvail = 0, m_featureSet = 6\<rparr> Low) = WriteError
   \<and> m_powerMode (snd (snd (set_power_mode_synchronous sample_decls
          (sample_wire (\<lambda>k. 1000) (\<lambda>k. 2) [] [])
          \<lparr>m_powerMode = UltraLow, m_tAvail = 0, m_featureSet = 6\<rparr> Low))) = UltraLow"
proof -
  let ?w = "sample_wire (\<lambda>k. 1000) (\<lambda>k. 2) [] []"
  let ?s = "\<lparr>m_powerMode = UltraLow, m_tAvail = 0, m_featureSet = 6\<rparr>"
  have u: "fst (sendSynchronous_param sample_decls ?w ?s
                  Command_t_set_power_mode (PowerMode_t_value Low)) = WriteError"
    by (simp add: run_defs cmd_defs sample_wire_def sample_decls_def
        Command_t_set_power_mode_def)
  then have "fst (sendSynchronous_param sample_decls ?w ?s
                    Command_t_set_power_mode (PowerMode_t_value Low)) \<noteq> Success"
    by simp
  note r = set_power_mode_failure_keeps_mode [OF this]
  from r have a: "fst (set_power_mode_synchronous sample_decls ?w ?s Low) =
      fst (sendSynchronous_param sample_decls ?w ?s
             Command_t_set_power_mode (PowerMode_t_value Low))" ..
  from r have b: "m_powerMode (snd (snd (set_power_mode_synchronous sample_decls ?w ?s Low)))
      = m_powerMode ?s"
    by (elim conjE)
  show ?thesis
    unfolding b a u by simp
qed

section \<open>Initialisation: \<open>begin\<close>\<close>

lemma get_feature_set_version_fields:
  "getFeatureSet Command_t_get_feature_set_version = 0"
  "getCommand Command_t_get_feature_set_version = 0x202f"
  by (simp_all add: Command_t_get_feature_set_version_def cmd_defs)

lemma sendCommandWithResponse_transmissions:
  "transmissions (fst (snd (sendCommandWithResponse d w s c))) =
     transmissions w @ [[ucast (drop_bit 8 (getCommand c)), ucast (getCommand c)]]"
proof -
  obtain r w1 s1 where
    e: "sendCommand w s c None (Some (stack_at w (length (transmissions w)))) = (r, w1, s1)"
    by (cases "sendCommand w s c None (Some (stack_at w (length (transmissions w))))") auto
  from sendCommand_transmissions [of w s c None "Some (stack_at w (length (transmissions w)))"]
  have "transmissions w1 =
      transmissions w @ [[ucast (drop_bit 8 (getCommand c)), ucast (getCommand c)]]"
    by (simp add: e)
  then show ?thesis
    by (simp add: sendCommandWithResponse_def Let_def e)
qed

lemma discovery_transmissions:
  "transmissions (fst (snd (discovery d w s))) = transmissions w @ [[0x20, 0x2f]]"
  by (simp add: discovery_def sendAndGetSynchronous_def isSupported_def isSuccess_def Let_def
      get_feature_set_version_fields sendCommandWithResponse_transmissions)

lemma begin_after_discovery:
  assumes "discovery d w s = (Success, w1, s1, Some fs)"
    and "featureSet_getProductType d fs \<noteq> ProductType_t_SGPC3 d
       \<or> featureSet_getProductVersion d fs < 6"
  shows "begin_cSGPC3 d w s mode = (WrongDeviceType, w1, s1\<lparr>m_featureSet := 0\<rparr>)"
  using assms by (auto simp add: begin_cSGPC3_def discovery_def Let_def isSuccess_def)

lemma gated_command_refused:
  assumes "m_featureSet s = 0" and "getFeatureSet c \<noteq> 0"
  shows "isSupported s c = NotSupported"
    and "sendSynchronous w s c = (NotSupported, w, s)"
    and "sendSynchronous_param d w s c v = (NotSupported, w, s)"
    and "sendAndGetSynchronous d w s c = (NotSupported, w, s, None)"
proof -
  from assms show g: "isSupported s c = NotSupported"
    by (simp add: isSupported_def word_neq_0_conv)
  show "sendSynchronous w s c = (NotSupported, w, s)"
    by (simp add: sendSynchronous_def g isSuccess_def)
  show "sendSynchronous_param d w s c v = (NotSupported, w, s)"
    by (simp add: sendSynchronous_param_def g isSuccess_def)
  show "sendAndGetSynchronous d w s c = (NotSupported, w, s, None)"
    by (simp add: sendAndGetSynchronous_def g isSuccess_def)
qed

text \<open>
  C6. When the discovery command of \<open>begin\<close> succeeds with the feature-set word \<open>fs\<close>,
  and the product type decoded from \<open>fs\<close> is not \<open>SGPC3\<close> or the product version decoded
  from it is below 6, then \<open>begin\<close> returns \<open>WrongDeviceType\<close>; the bus is as the
  discovery command left it, with the one transmission \<open>0x20 0x2f\<close> added and no other;
  the stored feature level is 0; and for every command \<open>c\<close> that requires a feature
  level above 0, the gate answers \<open>NotSupported\<close> in the session \<open>begin\<close> returns, and
  the sending templates return \<open>NotSupported\<close> on any bus \<open>w'\<close> with the bus and the
  session untouched.
\<close>

theorem begin_wrong_device:
  assumes "fst (discovery d w s) = Success"
    and "snd (snd (snd (discovery d w s))) = Some fs"
    and "featureSet_getProductType d fs \<noteq> ProductType_t_SGPC3 d
       \<or> featureSet_getProductVersion d fs < 6"
    and "getFeatureSet c \<noteq> 0"
  shows "fst (begin_cSGPC3 d w s mode) = WrongDeviceType
    \<and> fst (snd (begin_cSGPC3 d w s mode)) = fst (snd (discovery d w s))
    \<and> transmissions (fst (snd (begin_cSGPC3 d w s mode))) = transmissions w @ [[0x20, 0x2f]]
    \<and> m_featureSet (snd (snd (begin_cSGPC3 d w s mode))) = 0
    \<and> isSupported (snd (snd (begin_cSGPC3 d w s mode))) c = NotSupported
    \<and> sendSynchronous w' (snd (snd (begin_cSGPC3 d w s mode))) c
        = (NotSupported, w', snd (snd (begin_cSGPC3 d w s mode)))
    \<and> sendSynchronous_param d w' (snd (snd (begin_cSGPC3 d w s mode))) c v
        = (NotSupported, w', snd (snd (begin_cSGPC3 d w s mode)))
    \<and> sendAndGetSynchronous d w' (snd (snd (begin_cSGPC3 d w s mode))) c
        = (NotSupported, w', snd (snd (begin_cSGPC3 d w s mode)), None)"
proof -
  obtain r w1 s1 f where eq: "discovery d w s = (r, w1, s1, f)"
    by (cases "discovery d w s") auto
  with assms(1,2) have eq': "discovery d w s = (Success, w1, s1, Some fs)"
    by simp
  have b: "begin_cSGPC3 d w s mode = (WrongDeviceType, w1, s1\<lparr>m_featureSet := 0\<rparr>)"
    by (rule begin_after_discovery [OF eq' assms(3)])
  have t: "transmissions w1 = transmissions w @ [[0x20, 0x2f]]"
    using discovery_transmissions [of d w s] by (simp add: eq')
  have z: "m_featureSet (s1\<lparr>m_featureSet := 0\<rparr>) = 0"
    by simp
  show ?thesis
    unfolding b by (simp add: eq' t gated_command_refused [OF z assms(4)])
qed

text \<open>
  C6, an instance: the response buffer holds \<open>0x10 0x03 0xBC\<close>, a valid group for the
  feature-set word \<open>0x1003\<close>, product type 1 and version 3. \<open>begin\<close> returns
  \<open>WrongDeviceType\<close> after the single transmission \<open>0x20 0x2f\<close>, and \<open>set_power_mode\<close>,
  which requires level 6, is refused by the gate afterwards.
\<close>

theorem begin_wrong_device_witness:
  "fst (begin_cSGPC3 sample_decls
          (sample_wire (\<lambda>k. 1000) (\<lambda>k. 0) [0x10, 0x03, 0xBC] [0x10, 0x03, 0xBC])
          \<lparr>m_powerMode = UltraLow, m_tAvail = 0, m_featureSet = 6\<rparr> Low) = WrongDeviceType
   \<and> transmissions (fst (snd (begin_cSGPC3 sample_decls
          (sample_wire (\<lambda>k. 1000) (\<lambda>k. 0) [0x10, 0x03, 0xBC] [0x10, 0x03, 0xBC])
          \<lparr>m_powerMode = UltraLow, m_tAvail = 0, m_featureSet = 6\<rparr> Low))) = [[0x20, 0x2f]]
   \<and> isSupported (snd (snd (begin_cSGPC3 sample_decls
          (sample_wire (\<lambda>k. 1000) (\<lambda>k. 0) [0x10, 0x03, 0xBC] [0x10, 0x03, 0xBC])
          \<lparr>m_powerMode = UltraLow, m_tAvail = 0, m_featureSet = 6\<rparr> Low)))
        Command_t_set_power_mode = NotSupported"
proof -
  let ?w = "sample_wire (\<lambda>k. 1000) (\<lambda>k. 0) [0x10, 0x03, 0xBC] [0x10, 0x03, 0xBC]"
  let ?s = "\<lparr>m_powerMode = UltraLow, m_tAvail = 0, m_featureSet = 6\<rparr>"
  have 1: "fst (discovery sample_decls ?w ?s) = Success"
    by (simp add: discovery_def run_defs cmd_defs sample_wire_def sample_decls_def
        Command_t_get_feature_set_version_def)
  have 2: "snd (snd (snd (discovery sample_decls ?w ?s))) = Some 0x1003"
    by (simp add: discovery_def run_defs cmd_defs sample_wire_def sample_decls_def
        Command_t_get_feature_set_version_def)
  have 3: "featureSet_getProductType sample_decls 0x1003 \<noteq> ProductType_t_SGPC3 sample_decls
       \<or> featureSet_getProductVersion sample_decls 0x1003 < 6"
    by (simp add: sample_decls_def)
  have 4: "getFeatureSet Command_t_set_power_mode \<noteq> 0"
    by (simp add: Command_t_set_power_mode_def cmd_defs)
  have 5: "transmissions ?w = []"
    by (simp add: sample_wire_def)
  note r = begin_wrong_device [OF 1 2 3 4, where mode = Low and w' = ?w and v = 0]
  from r have a: "fst (begin_cSGPC3 sample_decls ?w ?s Low) = WrongDeviceType" ..
  from r have b: "transmissions (fst (snd (begin_cSGPC3 sample_decls ?w ?s Low)))
      = transmissions ?w @ [[0x20, 0x2f]]"
    by (elim conjE)
  from r have c: "isSupported (snd (snd (begin_cSGPC3 sample_decls ?w ?s Low)))
      Command_t_set_power_mode = NotSupported"
    by (elim conjE)
  show ?thesis
    unfolding a b c 5 by simp
qed

text \<open>
  C5, the code at a failing input. The device is an SGPC3 of version 6 (the response
  buffer holds \<open>0x10 0x06 0x49\<close>); the bus accepts the first and the third transmission
  and refuses the second, the one of \<open>set_power_mode\<close>, with status 2. \<open>begin\<close> called
  for \<open>UltraLow\<close> returns \<open>Success\<close>: the three commands went out, the power-mode one
  failed, and the stored mode is \<open>Low\<close>, the mode of the reset.
\<close>

theorem begin_success_after_failed_power_mode:
  "fst (begin_cSGPC3 sample_decls
          (sample_wire (\<lambda>k. 1000) (\<lambda>k. if k = 1 then 2 else 0)
             [0x10, 0x06, 0x49] [0x10, 0x06, 0x49])
          \<lparr>m_powerMode = Low, m_tAvail = 0, m_featureSet = 0\<rparr> UltraLow) = Success
   \<and> transmissions (fst (snd (begin_cSGPC3 sample_decls
          (sample_wire (\<lambda>k. 1000) (\<lambda>k. if k = 1 then 2 else 0)
             [0x10, 0x06, 0x49] [0x10, 0x06, 0x49])
          \<lparr>m_powerMode = Low, m_tAvail = 0, m_featureSet = 0\<rparr> UltraLow)))
       = [[0x20, 0x2f], [0x20, 0x9f, 0x00, 0x00, 0x81], [0x20, 0xae]]
   \<and> endTransmission_at (sample_wire (\<lambda>k. 1000) (\<lambda>k. if k = 1 then 2 else 0)
             [0x10, 0x06, 0x49] [0x10, 0x06, 0x49]) 1 = 2
   \<and> m_powerMode (snd (snd (begin_cSGPC3 sample_decls
          (sample_wire (\<lambda>k. 1000) (\<lambda>k. if k = 1 then 2 else 0)
             [0x10, 0x06, 0x49] [0x10, 0x06, 0x49])
          \<lparr>m_powerMode = Low, m_tAvail = 0, m_featureSet = 0\<rparr> UltraLow))) = Low"
  by (simp add: begin_cSGPC3_def set_power_mode_synchronous_def tvoc_init_continuous_def
      run_defs cmd_defs sample_wire_def sample_decls_def
      Command_t_get_feature_set_version_def Command_t_set_power_mode_def
      Command_t_tvoc_init_continuous_def)

end
